theory Spec2Isabelle
  imports Main "HOL-Library.Word"
begin

unbundle bit_operations_syntax

section \<open>The macOS media bridge of stmps (remote/mpmedia\_mac.go)\<close>

text \<open>
  The file binds the operating system's media command center to the player: commands of
  the OS arrive through the exported callback \<open>os_remote_command_callback\<close> and are
  forwarded to the player, and the player's events are forwarded to the OS through the C
  functions of \<open>mpmediabridge.h\<close>.

  The embedding threads one state, \<open>world\<close>, through every function. It holds the Go
  heap of handlers, the global \<open>mpMediaEventRecipient\<close>, the player objects, the C heap
  of \<open>C.CString\<close>, and a trace of everything the code does to its collaborators, in
  the order in which it does it. A function returns an outcome (it returns, or it panics
  with Go's nil dereference) and the world it leaves behind.
\<close>

subsection \<open>Values\<close>

text \<open>
  Go's \<open>float64\<close> and C's \<open>double\<close> are the same IEEE 754 binary64 value, kept
  here as its 64 bits: the conversions \<open>float64(value)\<close> and \<open>C.double(x)\<close> of a
  \<open>float64\<close> change nothing. Go's \<open>int\<close> has 64 bits on darwin. \<open>C.Command\<close> is
  a C enumeration, which cgo presents as a 32-bit unsigned integer. An \<open>error\<close> is
  its message; \<open>None\<close> is the nil error.
\<close>

type_synonym float64 = "64 word"
type_synonym go_int = "64 word"
type_synonym Command = "32 word"
type_synonym error = string

type_synonym addr = nat
type_synonym player_ref = nat
type_synonym logger_ref = nat
type_synonym c_ptr = nat

text \<open>
  The enumerators of \<open>Command\<close> are declared in \<open>mpmediabridge.h\<close>, which is not
  among the sources: their values are a parameter. Go rejects a \<open>switch\<close> with two
  equal constant cases, so the seven values are distinct.
\<close>

record Command_enum =
  PLAY :: Command
  PAUSE :: Command
  STOP :: Command
  TOGGLE :: Command
  PREVIOUS_TRACK :: Command
  NEXT_TRACK :: Command
  SEEK :: Command

definition enumerators :: "Command_enum \<Rightarrow> Command list" where
  "enumerators K = [PLAY K, PAUSE K, STOP K, TOGGLE K, PREVIOUS_TRACK K, NEXT_TRACK K, SEEK K]"

text \<open>The struct \<open>MPMediaHandler\<close>; a nil interface value is \<open>None\<close>.\<close>

record MPMediaHandler =
  player :: "player_ref option"
  logger :: "logger_ref option"

text \<open>
  The five function literals of \<open>RegisterMPMediaHandler\<close>, in source order, each with
  the handler pointer \<open>mp\<close> it captures. The first has type \<open>func(TrackInterface)\<close>,
  the others \<open>func()\<close>.
\<close>

datatype track_func = RegisterMPMediaHandler_func1 addr

datatype func =
    RegisterMPMediaHandler_func2 addr
  | RegisterMPMediaHandler_func3 addr
  | RegisterMPMediaHandler_func4 addr
  | RegisterMPMediaHandler_func5 addr

text \<open>
  Modelled from the spec: the interface \<open>TrackInterface\<close>, declared in another file of
  the package (``Track capability set: IsValid() -> bool, GetTitle() -> text,
  GetArtist() -> text, GetDuration() -> integer seconds''). A nil track is \<open>None\<close>.
\<close>

record Track =
  IsValid :: bool
  GetTitle :: string
  GetArtist :: string
  GetDuration :: go_int

type_synonym TrackInterface = "Track option"

subsection \<open>What the code does to its collaborators\<close>

datatype player_call =
    Call_Play
  | Call_Pause
  | Call_Stop
  | Call_NextTrack
  | Call_PreviousTrack
  | Call_SeekAbsolute float64
  | Call_GetTimePos
  | Call_OnSongChange track_func
  | Call_OnStopped func
  | Call_OnSeek func
  | Call_OnPlaying func
  | Call_OnPaused func

datatype logger_call = Print string | PrintError string error

text \<open>
  The C functions of the bridge. A \<open>char *\<close> argument is recorded as the bytes of the
  allocation found at the pointer when the call is made, its final NUL included
  (\<open>None\<close> for a pointer that is not allocated).
\<close>

datatype c_call =
    Register_os_remote_commands
  | Set_os_playback_state_stopped
  | Set_os_playback_state_playing
  | Set_os_playback_state_paused
  | Update_os_now_playing_info_position float64
  | Set_os_now_playing_info "string option" "string option" "string option" float64

datatype event =
    Assign_mpMediaEventRecipient addr
  | C_call c_call
  | Player_call player_ref player_call
  | Logger_call logger_ref logger_call
  | Log_Printf string

datatype 'a outcome = Returns 'a | Panics

subsection \<open>The state\<close>

text \<open>
  Modelled from the spec: the interface \<open>ControlledPlayer\<close>, declared in another file of
  the package (``Play() -> error, Pause() -> error, Stop() -> error, NextTrack() -> error,
  PreviousTrack() -> error, SeekAbsolute(seconds: float) -> error, GetTimePos() -> float'').
  The implementation is a parameter: a table of methods over the player's own state
  \<open>'p\<close>, each returning its result and the player's next state.
\<close>

record 'p ControlledPlayer =
  Play :: "'p \<Rightarrow> error option \<times> 'p"
  Pause :: "'p \<Rightarrow> error option \<times> 'p"
  Stop :: "'p \<Rightarrow> error option \<times> 'p"
  NextTrack :: "'p \<Rightarrow> error option \<times> 'p"
  PreviousTrack :: "'p \<Rightarrow> error option \<times> 'p"
  SeekAbsolute :: "float64 \<Rightarrow> 'p \<Rightarrow> error option \<times> 'p"
  GetTimePos :: "'p \<Rightarrow> float64 \<times> 'p"

text \<open>
  Modelled from the spec: the player's event subscription (``OnSongChange(handler(track)),
  OnStopped(handler()), OnSeek(handler()), OnPlaying(handler()), OnPaused(handler())'',
  ``each listener is invoked synchronously by the player at the moment of the
  corresponding transition''). A player object keeps, for each event, the listeners in the
  order in which they subscribed.
\<close>

datatype player_event = Stopped | Seek | Playing | Paused

record 'p player_obj =
  pstate :: 'p
  songChangeListeners :: "track_func list"
  listeners :: "player_event \<Rightarrow> func list"

text \<open>
  Modelled from the spec: the native side of \<open>register_os_remote_commands\<close> is not
  among the sources, and the spec speaks of a native side that ``refuses to register for
  commands''. Whether it accepts is a fact of the environment,
  \<open>os_accepts_registration\<close>; the C function returns nothing.
\<close>

record 'p world =
  heap :: "addr \<Rightarrow> MPMediaHandler"
  heap_next :: addr
  mpMediaEventRecipient :: "addr option"
  players :: "player_ref \<Rightarrow> 'p player_obj"
  c_heap :: "c_ptr \<Rightarrow> string option"
  c_next :: c_ptr
  os_accepts_registration :: bool
  os_commands_registered :: bool
  trace :: "event list"

definition record_event :: "event \<Rightarrow> 'p world \<Rightarrow> 'p world" where
  "record_event e w = w\<lparr>trace := trace w @ [e]\<rparr>"

definition and_then ::
  "'a outcome \<times> 's \<Rightarrow> ('a \<Rightarrow> 's \<Rightarrow> 'b outcome \<times> 's) \<Rightarrow> 'b outcome \<times> 's" where
  "and_then r f = (case r of (Returns x, s) \<Rightarrow> f x s | (Panics, s) \<Rightarrow> (Panics, s))"

subsection \<open>Calls through the interfaces\<close>

text \<open>
  A method call on the player behind an interface value: the method runs on the state of
  that player object, and the call is recorded.
\<close>

definition invoke ::
  "('p \<Rightarrow> 'r \<times> 'p) \<Rightarrow> player_call \<Rightarrow> player_ref \<Rightarrow> 'p world \<Rightarrow> 'r \<times> 'p world" where
  "invoke method call p w =
     (case method (pstate (players w p)) of
        (r, s') \<Rightarrow>
          (r, record_event (Player_call p call)
                (w\<lparr>players := (players w)(p := (players w p)\<lparr>pstate := s'\<rparr>)\<rparr>)))"

text \<open>
  Modelled from the spec: the logger behind \<open>mp.logger\<close>, whose package is not among
  the sources (``failure is caught, logged with the operation name''): a call on a logger is
  recorded with its arguments and returns. The interface value may be nil, and a method
  call on a nil interface panics.
\<close>

definition call_logger :: "logger_ref option \<Rightarrow> logger_call \<Rightarrow> 'p world \<Rightarrow> unit outcome \<times> 'p world" where
  "call_logger lg c w =
     (case lg of
        None \<Rightarrow> (Panics, w)
      | Some l \<Rightarrow> (Returns (), record_event (Logger_call l c) w))"

text \<open>
  Modelled from the spec: the subscription methods of the player (``attach one listener per
  player lifecycle event''), called on \<open>mp.player\<close>: the listener is appended to the
  list of its event. A call on a nil interface panics.
\<close>

definition player_OnSongChange :: "player_ref option \<Rightarrow> track_func \<Rightarrow> 'p world \<Rightarrow> unit outcome \<times> 'p world" where
  "player_OnSongChange pl f w =
     (case pl of
        None \<Rightarrow> (Panics, w)
      | Some p \<Rightarrow>
          (Returns (), record_event (Player_call p (Call_OnSongChange f))
             (w\<lparr>players := (players w)(p := (players w p)
                  \<lparr>songChangeListeners := songChangeListeners (players w p) @ [f]\<rparr>)\<rparr>)))"

definition subscribe :: "player_event \<Rightarrow> func \<Rightarrow> 'p player_obj \<Rightarrow> 'p player_obj" where
  "subscribe ev f po = po\<lparr>listeners := (listeners po)(ev := listeners po ev @ [f])\<rparr>"

definition player_On ::
  "player_event \<Rightarrow> (func \<Rightarrow> player_call) \<Rightarrow> player_ref option \<Rightarrow> func \<Rightarrow> 'p world
     \<Rightarrow> unit outcome \<times> 'p world" where
  "player_On ev call pl f w =
     (case pl of
        None \<Rightarrow> (Panics, w)
      | Some p \<Rightarrow>
          (Returns (), record_event (Player_call p (call f))
             (w\<lparr>players := (players w)(p := subscribe ev f (players w p))\<rparr>)))"

definition player_OnStopped :: "player_ref option \<Rightarrow> func \<Rightarrow> 'p world \<Rightarrow> unit outcome \<times> 'p world" where
  "player_OnStopped = player_On Stopped Call_OnStopped"

definition player_OnSeek :: "player_ref option \<Rightarrow> func \<Rightarrow> 'p world \<Rightarrow> unit outcome \<times> 'p world" where
  "player_OnSeek = player_On Seek Call_OnSeek"

definition player_OnPlaying :: "player_ref option \<Rightarrow> func \<Rightarrow> 'p world \<Rightarrow> unit outcome \<times> 'p world" where
  "player_OnPlaying = player_On Playing Call_OnPlaying"

definition player_OnPaused :: "player_ref option \<Rightarrow> func \<Rightarrow> 'p world \<Rightarrow> unit outcome \<times> 'p world" where
  "player_OnPaused = player_On Paused Call_OnPaused"

text \<open>\<open>mp.player.GetTimePos()\<close>: a nil player panics.\<close>

definition player_GetTimePos ::
  "'p ControlledPlayer \<Rightarrow> player_ref option \<Rightarrow> 'p world \<Rightarrow> float64 outcome \<times> 'p world" where
  "player_GetTimePos P pl w =
     (case pl of
        None \<Rightarrow> (Panics, w)
      | Some p \<Rightarrow> (case invoke (GetTimePos P) Call_GetTimePos p w of (pos, w') \<Rightarrow> (Returns pos, w')))"

subsection \<open>Incoming OS commands\<close>

text \<open>
  The seven methods \<open>OnCommand...\<close>. The receiver is a pointer and may be nil
  (\<open>None\<close>): the first test of each method.
\<close>

definition OnCommandPause :: "'p ControlledPlayer \<Rightarrow> addr option \<Rightarrow> 'p world \<Rightarrow> unit outcome \<times> 'p world" where
  "OnCommandPause P mp w =
     (case mp of
        None \<Rightarrow> (Returns (), w)
      | Some a \<Rightarrow>
          (case player (heap w a) of
             None \<Rightarrow> (Returns (), w)
           | Some p \<Rightarrow>
               (case invoke (Pause P) Call_Pause p w of
                  (None, w') \<Rightarrow> (Returns (), w')
                | (Some err, w') \<Rightarrow> call_logger (logger (heap w' a)) (PrintError ''Pause'' err) w')))"

definition OnCommandPlay :: "'p ControlledPlayer \<Rightarrow> addr option \<Rightarrow> 'p world \<Rightarrow> unit outcome \<times> 'p world" where
  "OnCommandPlay P mp w =
     (case mp of
        None \<Rightarrow> (Returns (), w)
      | Some a \<Rightarrow>
          (case player (heap w a) of
             None \<Rightarrow> (Returns (), w)
           | Some p \<Rightarrow>
               (case invoke (Play P) Call_Play p w of
                  (None, w') \<Rightarrow> (Returns (), w')
                | (Some err, w') \<Rightarrow> call_logger (logger (heap w' a)) (PrintError ''Play'' err) w')))"

definition OnCommandStop :: "'p ControlledPlayer \<Rightarrow> addr option \<Rightarrow> 'p world \<Rightarrow> unit outcome \<times> 'p world" where
  "OnCommandStop P mp w =
     (case mp of
        None \<Rightarrow> (Returns (), w)
      | Some a \<Rightarrow>
          (case player (heap w a) of
             None \<Rightarrow> (Returns (), w)
           | Some p \<Rightarrow>
               (case invoke (Stop P) Call_Stop p w of
                  (None, w') \<Rightarrow> (Returns (), w')
                | (Some err, w') \<Rightarrow> call_logger (logger (heap w' a)) (PrintError ''Stop'' err) w')))"

definition OnCommandTogglePlayPause :: "'p ControlledPlayer \<Rightarrow> addr option \<Rightarrow> 'p world \<Rightarrow> unit outcome \<times> 'p world" where
  "OnCommandTogglePlayPause P mp w =
     (case mp of
        None \<Rightarrow> (Returns (), w)
      | Some a \<Rightarrow>
          (case player (heap w a) of
             None \<Rightarrow> (Returns (), w)
           | Some p \<Rightarrow>
               (case invoke (Pause P) Call_Pause p w of
                  (None, w') \<Rightarrow> (Returns (), w')
                | (Some err, w') \<Rightarrow> call_logger (logger (heap w' a)) (PrintError ''Pause'' err) w')))"

definition OnCommandNextTrack :: "'p ControlledPlayer \<Rightarrow> addr option \<Rightarrow> 'p world \<Rightarrow> unit outcome \<times> 'p world" where
  "OnCommandNextTrack P mp w =
     (case mp of
        None \<Rightarrow> (Returns (), w)
      | Some a \<Rightarrow>
          (case player (heap w a) of
             None \<Rightarrow> (Returns (), w)
           | Some p \<Rightarrow>
               (case invoke (NextTrack P) Call_NextTrack p w of
                  (None, w') \<Rightarrow> (Returns (), w')
                | (Some err, w') \<Rightarrow> call_logger (logger (heap w' a)) (PrintError ''NextTrack'' err) w')))"

definition OnCommandPreviousTrack :: "'p ControlledPlayer \<Rightarrow> addr option \<Rightarrow> 'p world \<Rightarrow> unit outcome \<times> 'p world" where
  "OnCommandPreviousTrack P mp w =
     (case mp of
        None \<Rightarrow> (Returns (), w)
      | Some a \<Rightarrow>
          (case player (heap w a) of
             None \<Rightarrow> (Returns (), w)
           | Some p \<Rightarrow>
               (case invoke (PreviousTrack P) Call_PreviousTrack p w of
                  (None, w') \<Rightarrow> (Returns (), w')
                | (Some err, w') \<Rightarrow>
                    call_logger (logger (heap w' a)) (PrintError ''PreviousTrack'' err) w')))"

definition OnCommandSeek ::
  "'p ControlledPlayer \<Rightarrow> addr option \<Rightarrow> float64 \<Rightarrow> 'p world \<Rightarrow> unit outcome \<times> 'p world" where
  "OnCommandSeek P mp positionSeconds w =
     (case mp of
        None \<Rightarrow> (Returns (), w)
      | Some a \<Rightarrow>
          (case player (heap w a) of
             None \<Rightarrow> (Returns (), w)
           | Some p \<Rightarrow>
               (case invoke (SeekAbsolute P positionSeconds) (Call_SeekAbsolute positionSeconds) p w of
                  (None, w') \<Rightarrow> (Returns (), w')
                | (Some err, w') \<Rightarrow>
                    call_logger (logger (heap w' a)) (PrintError ''SeekAbsolute'' err) w')))"

text \<open>
  \<open>log.Printf("unknown OS command received: %v", command)\<close>: the verb \<open>%v\<close> prints
  the unsigned integer in decimal. The entry is recorded without the time stamp that the
  standard logger puts in front.
\<close>

function decimal :: "nat \<Rightarrow> string" where
  "decimal n =
     (if n < 10 then [''0123456789'' ! n]
      else decimal (n div 10) @ [''0123456789'' ! (n mod 10)])"
  by pat_completeness auto
termination
  by (relation "measure (\<lambda>n. n)") auto

declare decimal.simps [simp del]

text \<open>
  The exported callback. The \<open>switch\<close> takes the first case equal to \<open>command\<close>,
  and the \<open>default\<close> case when none is.
\<close>

definition os_remote_command_callback ::
  "Command_enum \<Rightarrow> 'p ControlledPlayer \<Rightarrow> Command \<Rightarrow> float64 \<Rightarrow> 'p world \<Rightarrow> unit outcome \<times> 'p world" where
  "os_remote_command_callback K P command value' w =
     (if command = PLAY K then OnCommandPlay P (mpMediaEventRecipient w) w
      else if command = PAUSE K then OnCommandPause P (mpMediaEventRecipient w) w
      else if command = STOP K then OnCommandStop P (mpMediaEventRecipient w) w
      else if command = TOGGLE K then OnCommandTogglePlayPause P (mpMediaEventRecipient w) w
      else if command = PREVIOUS_TRACK K then OnCommandPreviousTrack P (mpMediaEventRecipient w) w
      else if command = NEXT_TRACK K then OnCommandNextTrack P (mpMediaEventRecipient w) w
      else if command = SEEK K then OnCommandSeek P (mpMediaEventRecipient w) value' w
      else (Returns (),
            record_event (Log_Printf (''unknown OS command received: '' @ decimal (unat command))) w))"

subsection \<open>Conversions at the C boundary\<close>

text \<open>
  \<open>C.double(duration)\<close> converts a Go \<open>int\<close> to a double: the nearest binary64
  value, ties to the even significand. The integer is exact up to 53 bits; a longer one
  loses its low bits. The result is assembled from sign, biased exponent and the 52
  stored bits of the significand.
\<close>

function bit_length :: "nat \<Rightarrow> nat" where
  "bit_length n = (if n = 0 then 0 else Suc (bit_length (n div 2)))"
  by pat_completeness auto
termination
  by (relation "measure (\<lambda>n. n)") auto

declare bit_length.simps [simp del]

definition round_half_even :: "nat \<Rightarrow> nat \<Rightarrow> nat" where
  "round_half_even m sh =
     (let q = m div 2 ^ sh; r = m mod 2 ^ sh; half = 2 ^ (sh - 1)
      in if r > half \<or> (r = half \<and> odd q) then q + 1 else q)"

definition float64_of_int :: "go_int \<Rightarrow> float64" where
  "float64_of_int i =
     (let m = nat \<bar>sint i\<bar>;
          sign = (if sint i < 0 then push_bit 63 1 else 0)
      in if m = 0 then 0
         else
           let L = bit_length m;
               q = (if L \<le> 53 then m * 2 ^ (53 - L) else round_half_even m (L - 53));
               sig = (if q = 2 ^ 53 then 2 ^ 52 else q);
               e = (if q = 2 ^ 53 then L else L - 1)
           in sign OR push_bit 52 (of_nat (e + 1023)) OR of_nat (sig - 2 ^ 52))"


text \<open>
  \<open>C.CString\<close> allocates C memory and copies the bytes of the Go string there,
  followed by a NUL byte; \<open>C.free\<close> releases it.
\<close>

definition NUL_terminated :: "string \<Rightarrow> string" where
  "NUL_terminated s = s @ [CHR 0x00]"

definition C_CString :: "string \<Rightarrow> 'p world \<Rightarrow> c_ptr \<times> 'p world" where
  "C_CString s w =
     (c_next w, w\<lparr>c_heap := (c_heap w)(c_next w := Some (NUL_terminated s)), c_next := Suc (c_next w)\<rparr>)"

definition C_free :: "c_ptr \<Rightarrow> 'p world \<Rightarrow> 'p world" where
  "C_free ptr w = w\<lparr>c_heap := (c_heap w)(ptr := None)\<rparr>"

subsection \<open>The C functions of the bridge\<close>

definition register_os_remote_commands :: "'p world \<Rightarrow> 'p world" where
  "register_os_remote_commands w =
     record_event (C_call Register_os_remote_commands)
       (w\<lparr>os_commands_registered := os_accepts_registration w\<rparr>)"

definition set_os_playback_state_stopped :: "'p world \<Rightarrow> 'p world" where
  "set_os_playback_state_stopped w = record_event (C_call Set_os_playback_state_stopped) w"

definition set_os_playback_state_playing :: "'p world \<Rightarrow> 'p world" where
  "set_os_playback_state_playing w = record_event (C_call Set_os_playback_state_playing) w"

definition set_os_playback_state_paused :: "'p world \<Rightarrow> 'p world" where
  "set_os_playback_state_paused w = record_event (C_call Set_os_playback_state_paused) w"

definition update_os_now_playing_info_position :: "float64 \<Rightarrow> 'p world \<Rightarrow> 'p world" where
  "update_os_now_playing_info_position pos w =
     record_event (C_call (Update_os_now_playing_info_position pos)) w"

definition set_os_now_playing_info :: "c_ptr \<Rightarrow> c_ptr \<Rightarrow> c_ptr \<Rightarrow> float64 \<Rightarrow> 'p world \<Rightarrow> 'p world" where
  "set_os_now_playing_info title artist artURL duration w =
     record_event
       (C_call (Set_os_now_playing_info (c_heap w title) (c_heap w artist) (c_heap w artURL) duration)) w"

subsection \<open>Publishing the metadata\<close>

definition artURL :: string where
  "artURL = ''https://support.apple.com/library/content/dam/edam/applecare/images/en_US/osx/mac-apple-logo-screen-icon.png''"

text \<open>
  The deferred calls of \<open>C.free\<close> run when the function returns, the last deferred
  first.
\<close>

definition updateMetadata :: "addr \<Rightarrow> TrackInterface \<Rightarrow> 'p world \<Rightarrow> unit outcome \<times> 'p world" where
  "updateMetadata mp track w =
     (let (title, artist, duration) =
            (case track of
               None \<Rightarrow> ('''', '''', 0)
             | Some t \<Rightarrow>
                 if IsValid t then (GetTitle t, GetArtist t, GetDuration t) else ('''', '''', 0));
          (cTitle, w1) = C_CString title w;
          (cArtist, w2) = C_CString artist w1;
          (cArtURL, w3) = C_CString artURL w2;
          cTrackDuration = float64_of_int duration;
          w4 = set_os_now_playing_info cTitle cArtist cArtURL cTrackDuration w3;
          w5 = C_free cArtURL w4;
          w6 = C_free cArtist w5;
          w7 = C_free cTitle w6
      in (Returns (), w7))"

subsection \<open>The listeners\<close>

text \<open>The bodies of the five function literals; \<open>mp\<close> is the captured pointer.\<close>

definition func1 :: "addr \<Rightarrow> TrackInterface \<Rightarrow> 'p world \<Rightarrow> unit outcome \<times> 'p world" where
  "func1 mp track w =
     and_then (call_logger (logger (heap w mp)) (Print ''OnSongChange'') w) (\<lambda>_ w1.
     updateMetadata mp track w1)"

definition func2 :: "addr \<Rightarrow> 'p world \<Rightarrow> unit outcome \<times> 'p world" where
  "func2 mp w =
     and_then (call_logger (logger (heap w mp)) (Print ''OnStopped'') w) (\<lambda>_ w1.
     (Returns (), set_os_playback_state_stopped w1))"

definition func3 :: "'p ControlledPlayer \<Rightarrow> addr \<Rightarrow> 'p world \<Rightarrow> unit outcome \<times> 'p world" where
  "func3 P mp w =
     and_then (call_logger (logger (heap w mp)) (Print ''OnSeek'') w) (\<lambda>_ w1.
     and_then (player_GetTimePos P (player (heap w1 mp)) w1) (\<lambda>pos w2.
     (Returns (), update_os_now_playing_info_position pos w2)))"

definition func4 :: "'p ControlledPlayer \<Rightarrow> addr \<Rightarrow> 'p world \<Rightarrow> unit outcome \<times> 'p world" where
  "func4 P mp w =
     and_then (call_logger (logger (heap w mp)) (Print ''OnPlaying'') w) (\<lambda>_ w1.
     let w2 = set_os_playback_state_playing w1 in
     and_then (player_GetTimePos P (player (heap w2 mp)) w2) (\<lambda>pos w3.
     (Returns (), update_os_now_playing_info_position pos w3)))"

definition func5 :: "'p ControlledPlayer \<Rightarrow> addr \<Rightarrow> 'p world \<Rightarrow> unit outcome \<times> 'p world" where
  "func5 P mp w =
     and_then (call_logger (logger (heap w mp)) (Print ''OnPaused'') w) (\<lambda>_ w1.
     let w2 = set_os_playback_state_paused w1 in
     and_then (player_GetTimePos P (player (heap w2 mp)) w2) (\<lambda>pos w3.
     (Returns (), update_os_now_playing_info_position pos w3)))"

fun call_track_func :: "track_func \<Rightarrow> TrackInterface \<Rightarrow> 'p world \<Rightarrow> unit outcome \<times> 'p world" where
  "call_track_func (RegisterMPMediaHandler_func1 mp) track w = func1 mp track w"

fun call_func :: "'p ControlledPlayer \<Rightarrow> func \<Rightarrow> 'p world \<Rightarrow> unit outcome \<times> 'p world" where
  "call_func P (RegisterMPMediaHandler_func2 mp) w = func2 mp w"
| "call_func P (RegisterMPMediaHandler_func3 mp) w = func3 P mp w"
| "call_func P (RegisterMPMediaHandler_func4 mp) w = func4 P mp w"
| "call_func P (RegisterMPMediaHandler_func5 mp) w = func5 P mp w"

subsection \<open>Registration\<close>

text \<open>\<open>&MPMediaHandler{...}\<close>: a new handler at the next free address.\<close>

definition new_MPMediaHandler :: "MPMediaHandler \<Rightarrow> 'p world \<Rightarrow> addr \<times> 'p world" where
  "new_MPMediaHandler h w =
     (heap_next w, w\<lparr>heap := (heap w)(heap_next w := h), heap_next := Suc (heap_next w)\<rparr>)"

definition RegisterMPMediaHandler ::
  "player_ref option \<Rightarrow> logger_ref option \<Rightarrow> 'p world \<Rightarrow> error option outcome \<times> 'p world" where
  "RegisterMPMediaHandler player' logger' w =
     (case new_MPMediaHandler \<lparr>player = player', logger = logger'\<rparr> w of
        (mp, w1) \<Rightarrow>
          let w2 = record_event (Assign_mpMediaEventRecipient mp) (w1\<lparr>mpMediaEventRecipient := Some mp\<rparr>);
              w3 = register_os_remote_commands w2
          in
          and_then (player_OnSongChange (player (heap w3 mp)) (RegisterMPMediaHandler_func1 mp) w3) (\<lambda>_ w4.
          and_then (player_OnStopped (player (heap w4 mp)) (RegisterMPMediaHandler_func2 mp) w4) (\<lambda>_ w5.
          and_then (player_OnSeek (player (heap w5 mp)) (RegisterMPMediaHandler_func3 mp) w5) (\<lambda>_ w6.
          and_then (player_OnPlaying (player (heap w6 mp)) (RegisterMPMediaHandler_func4 mp) w6) (\<lambda>_ w7.
          and_then (player_OnPaused (player (heap w7 mp)) (RegisterMPMediaHandler_func5 mp) w7) (\<lambda>_ w8.
          (Returns None, w8)))))))"

subsection \<open>The player emits an event\<close>

text \<open>
  Modelled from the spec: the player calls the listeners of the event one after the other,
  in the order of subscription; a panic in one of them ends the emission.
\<close>

fun run_track_listeners :: "track_func list \<Rightarrow> TrackInterface \<Rightarrow> 'p world \<Rightarrow> unit outcome \<times> 'p world" where
  "run_track_listeners [] track w = (Returns (), w)"
| "run_track_listeners (f # fs) track w =
     (case call_track_func f track w of
        (Returns _, w') \<Rightarrow> run_track_listeners fs track w'
      | (Panics, w') \<Rightarrow> (Panics, w'))"

fun run_listeners :: "'p ControlledPlayer \<Rightarrow> func list \<Rightarrow> 'p world \<Rightarrow> unit outcome \<times> 'p world" where
  "run_listeners P [] w = (Returns (), w)"
| "run_listeners P (f # fs) w =
     (case call_func P f w of
        (Returns _, w') \<Rightarrow> run_listeners P fs w'
      | (Panics, w') \<Rightarrow> (Panics, w'))"

definition emit_SongChange :: "player_ref \<Rightarrow> TrackInterface \<Rightarrow> 'p world \<Rightarrow> unit outcome \<times> 'p world" where
  "emit_SongChange p track w = run_track_listeners (songChangeListeners (players w p)) track w"

definition emit :: "'p ControlledPlayer \<Rightarrow> player_ref \<Rightarrow> player_event \<Rightarrow> 'p world \<Rightarrow> unit outcome \<times> 'p world" where
  "emit P p ev w = run_listeners P (listeners (players w p) ev) w"

subsection \<open>Reading the trace\<close>

definition player_calls :: "event list \<Rightarrow> (player_ref \<times> player_call) list" where
  "player_calls tr = concat (map (\<lambda>e. case e of Player_call p c \<Rightarrow> [(p, c)] | _ \<Rightarrow> []) tr)"


definition recipient_writes :: "event list \<Rightarrow> addr list" where
  "recipient_writes tr =
     concat (map (\<lambda>e. case e of Assign_mpMediaEventRecipient a \<Rightarrow> [a] | _ \<Rightarrow> []) tr)"

definition log_entries :: "event list \<Rightarrow> event list" where
  "log_entries tr =
     filter (\<lambda>e. case e of Logger_call l c \<Rightarrow> True | Log_Printf s \<Rightarrow> True | _ \<Rightarrow> False) tr"

text \<open>
  The world \<open>w'\<close> has the recipient, the handlers on the heap and the assignments to the
  recipient of the world \<open>w\<close>.
\<close>

definition same_recipient :: "'p world \<Rightarrow> 'p world \<Rightarrow> bool" where
  "same_recipient w w' \<longleftrightarrow>
     mpMediaEventRecipient w' = mpMediaEventRecipient w \<and>
     heap w' = heap w \<and>
     recipient_writes (trace w') = recipient_writes (trace w)"

text \<open>
  Between the worlds \<open>w\<close> and \<open>w'\<close>, player \<open>p\<close> received the one call \<open>call\<close>,
  no player received another, and the method \<open>method\<close> ran on the state of \<open>p\<close>.
\<close>

definition invoked_exactly ::
  "player_ref \<Rightarrow> player_call \<Rightarrow> ('p \<Rightarrow> error option \<times> 'p) \<Rightarrow> 'p world \<Rightarrow> 'p world \<Rightarrow> bool" where
  "invoked_exactly p call method w w' \<longleftrightarrow>
     player_calls (trace w') = player_calls (trace w) @ [(p, call)] \<and>
     pstate (players w' p) = snd (method (pstate (players w p)))"

text \<open>
  The result \<open>r\<close> of a command handler started in \<open>w\<close>: it returns, after the one
  call \<open>call\<close> on player \<open>p\<close>, followed by \<open>PrintError name err\<close> on logger \<open>l\<close>
  when \<open>method\<close> gave the error \<open>err\<close>, and by nothing when it gave none.
\<close>

definition caught_and_logged ::
  "player_ref \<Rightarrow> logger_ref \<Rightarrow> player_call \<Rightarrow> ('p \<Rightarrow> error option \<times> 'p) \<Rightarrow> string \<Rightarrow> 'p world
     \<Rightarrow> unit outcome \<times> 'p world \<Rightarrow> bool" where
  "caught_and_logged p l call method name w r \<longleftrightarrow>
     fst r = Returns () \<and>
     trace (snd r) =
       trace w @ Player_call p call #
         (case fst (method (pstate (players w p))) of
            None \<Rightarrow> []
          | Some err \<Rightarrow> [Logger_call l (PrintError name err)])"

text \<open>
  The result \<open>r\<close> of a command handler without a logger, started in \<open>w\<close>: after the
  one call \<open>call\<close> on player \<open>p\<close> it returns when \<open>method\<close> gave no error and
  panics when it gave one; nothing is logged.
\<close>

definition panics_unlogged ::
  "player_ref \<Rightarrow> player_call \<Rightarrow> ('p \<Rightarrow> error option \<times> 'p) \<Rightarrow> 'p world
     \<Rightarrow> unit outcome \<times> 'p world \<Rightarrow> bool" where
  "panics_unlogged p call method w r \<longleftrightarrow>
     fst r = (case fst (method (pstate (players w p))) of None \<Rightarrow> Returns () | Some err \<Rightarrow> Panics) \<and>
     trace (snd r) = trace w @ [Player_call p call]"

text \<open>
  The handler behind the pointer \<open>mp\<close> can log: the pointer is nil, or the handler has no
  player (in both cases a command handler returns before it logs), or its logger is not nil.
\<close>

definition logger_present :: "addr option \<Rightarrow> 'p world \<Rightarrow> bool" where
  "logger_present mp w =
     (case mp of
        None \<Rightarrow> True
      | Some a \<Rightarrow>
          (case player (heap w a) of
             None \<Rightarrow> True
           | Some p \<Rightarrow> logger (heap w a) \<noteq> None))"

subsection \<open>A concrete process\<close>

text \<open>
  A numbering of the commands, a player whose state is the error that each of its control
  methods returns and whose position is 42.5 seconds, and the process before any
  registration, with a native side that accepts the registration or refuses it.
\<close>

definition example_codes :: Command_enum where
  "example_codes =
     \<lparr>PLAY = 0, PAUSE = 1, STOP = 2, TOGGLE = 3, PREVIOUS_TRACK = 4, NEXT_TRACK = 5, SEEK = 6\<rparr>"

definition example_player :: "error option ControlledPlayer" where
  "example_player =
     \<lparr>Play = (\<lambda>s. (s, s)), Pause = (\<lambda>s. (s, s)), Stop = (\<lambda>s. (s, s)),
      NextTrack = (\<lambda>s. (s, s)), PreviousTrack = (\<lambda>s. (s, s)),
      SeekAbsolute = (\<lambda>v s. (s, s)), GetTimePos = (\<lambda>s. (0x4045400000000000, s))\<rparr>"

definition process_start :: "error option \<Rightarrow> bool \<Rightarrow> error option world" where
  "process_start s accepts =
     \<lparr>heap = (\<lambda>a. \<lparr>player = None, logger = None\<rparr>),
      heap_next = 0,
      mpMediaEventRecipient = None,
      players = (\<lambda>p. \<lparr>pstate = s, songChangeListeners = [], listeners = (\<lambda>ev. [])\<rparr>),
      c_heap = (\<lambda>ptr. None),
      c_next = 0,
      os_accepts_registration = accepts,
      os_commands_registered = False,
      trace = []\<rparr>"

text \<open>The process after \<open>RegisterMPMediaHandler(player 7, logger 3)\<close>.\<close>

definition registered :: "error option \<Rightarrow> error option world" where
  "registered s = snd (RegisterMPMediaHandler (Some 7) (Some 3) (process_start s True))"

text \<open>The process after \<open>RegisterMPMediaHandler(player 7, nil)\<close>: a handler without a logger.\<close>

definition registered_without_logger :: "error option \<Rightarrow> error option world" where
  "registered_without_logger s = snd (RegisterMPMediaHandler (Some 7) None (process_start s True))"

section \<open>Properties\<close>

subsection \<open>The command handlers\<close>

lemma player_calls_append: "player_calls (xs @ ys) = player_calls xs @ player_calls ys"
  by (simp add: player_calls_def)

lemmas handler_defs =
  OnCommandPlay_def OnCommandPause_def OnCommandStop_def OnCommandTogglePlayPause_def
  OnCommandPreviousTrack_def OnCommandNextTrack_def OnCommandSeek_def

lemmas call_defs = invoke_def call_logger_def record_event_def

lemma handlers_invoke:
  assumes "player (heap w a) = Some p"
  shows "invoked_exactly p Call_Play (Play P) w (snd (OnCommandPlay P (Some a) w))"
    and "invoked_exactly p Call_Pause (Pause P) w (snd (OnCommandPause P (Some a) w))"
    and "invoked_exactly p Call_Stop (Stop P) w (snd (OnCommandStop P (Some a) w))"
    and "invoked_exactly p Call_Pause (Pause P) w (snd (OnCommandTogglePlayPause P (Some a) w))"
    and "invoked_exactly p Call_PreviousTrack (PreviousTrack P) w
           (snd (OnCommandPreviousTrack P (Some a) w))"
    and "invoked_exactly p Call_NextTrack (NextTrack P) w (snd (OnCommandNextTrack P (Some a) w))"
    and "invoked_exactly p (Call_SeekAbsolute v) (SeekAbsolute P v) w
           (snd (OnCommandSeek P (Some a) v w))"
  using assms
  by (auto simp: handler_defs invoked_exactly_def player_calls_def call_defs
      split: prod.splits option.splits)

lemma handlers_log:
  assumes "heap w a = \<lparr>player = Some p, logger = Some l\<rparr>"
  shows "caught_and_logged p l Call_Play (Play P) ''Play'' w (OnCommandPlay P (Some a) w)"
    and "caught_and_logged p l Call_Pause (Pause P) ''Pause'' w (OnCommandPause P (Some a) w)"
    and "caught_and_logged p l Call_Stop (Stop P) ''Stop'' w (OnCommandStop P (Some a) w)"
    and "caught_and_logged p l Call_Pause (Pause P) ''Pause'' w
           (OnCommandTogglePlayPause P (Some a) w)"
    and "caught_and_logged p l Call_PreviousTrack (PreviousTrack P) ''PreviousTrack'' w
           (OnCommandPreviousTrack P (Some a) w)"
    and "caught_and_logged p l Call_NextTrack (NextTrack P) ''NextTrack'' w
           (OnCommandNextTrack P (Some a) w)"
    and "caught_and_logged p l (Call_SeekAbsolute v) (SeekAbsolute P v) ''SeekAbsolute'' w
           (OnCommandSeek P (Some a) v w)"
  using assms
  by (auto simp: handler_defs caught_and_logged_def call_defs split: prod.splits option.splits)

lemma handlers_unlogged:
  assumes "heap w a = \<lparr>player = Some p, logger = None\<rparr>"
  shows "panics_unlogged p Call_Play (Play P) w (OnCommandPlay P (Some a) w)"
    and "panics_unlogged p Call_Pause (Pause P) w (OnCommandPause P (Some a) w)"
    and "panics_unlogged p Call_Stop (Stop P) w (OnCommandStop P (Some a) w)"
    and "panics_unlogged p Call_Pause (Pause P) w (OnCommandTogglePlayPause P (Some a) w)"
    and "panics_unlogged p Call_PreviousTrack (PreviousTrack P) w
           (OnCommandPreviousTrack P (Some a) w)"
    and "panics_unlogged p Call_NextTrack (NextTrack P) w (OnCommandNextTrack P (Some a) w)"
    and "panics_unlogged p (Call_SeekAbsolute v) (SeekAbsolute P v) w
           (OnCommandSeek P (Some a) v w)"
  using assms
  by (auto simp: handler_defs panics_unlogged_def call_defs split: prod.splits option.splits)

lemma handlers_return:
  assumes "logger_present mp w"
  shows "fst (OnCommandPlay P mp w) = Returns ()"
    and "fst (OnCommandPause P mp w) = Returns ()"
    and "fst (OnCommandStop P mp w) = Returns ()"
    and "fst (OnCommandTogglePlayPause P mp w) = Returns ()"
    and "fst (OnCommandPreviousTrack P mp w) = Returns ()"
    and "fst (OnCommandNextTrack P mp w) = Returns ()"
    and "fst (OnCommandSeek P mp v w) = Returns ()"
  using assms
  by (auto simp: handler_defs logger_present_def call_defs split: prod.splits option.splits)

lemma dispatch:
  assumes "distinct (enumerators K)"
  shows "os_remote_command_callback K P (PLAY K) v w = OnCommandPlay P (mpMediaEventRecipient w) w"
    and "os_remote_command_callback K P (PAUSE K) v w = OnCommandPause P (mpMediaEventRecipient w) w"
    and "os_remote_command_callback K P (STOP K) v w = OnCommandStop P (mpMediaEventRecipient w) w"
    and "os_remote_command_callback K P (TOGGLE K) v w =
           OnCommandTogglePlayPause P (mpMediaEventRecipient w) w"
    and "os_remote_command_callback K P (PREVIOUS_TRACK K) v w =
           OnCommandPreviousTrack P (mpMediaEventRecipient w) w"
    and "os_remote_command_callback K P (NEXT_TRACK K) v w =
           OnCommandNextTrack P (mpMediaEventRecipient w) w"
    and "os_remote_command_callback K P (SEEK K) v w =
           OnCommandSeek P (mpMediaEventRecipient w) v w"
  using assms by (auto simp: os_remote_command_callback_def enumerators_def)

subsection \<open>Registration\<close>

lemma RegisterMPMediaHandler_Some:
  "RegisterMPMediaHandler (Some p) lg w =
     (Returns None,
      w\<lparr>heap := (heap w)(heap_next w := \<lparr>player = Some p, logger = lg\<rparr>),
        heap_next := Suc (heap_next w),
        mpMediaEventRecipient := Some (heap_next w),
        players := (players w)(p :=
          subscribe Paused (RegisterMPMediaHandler_func5 (heap_next w))
           (subscribe Playing (RegisterMPMediaHandler_func4 (heap_next w))
             (subscribe Seek (RegisterMPMediaHandler_func3 (heap_next w))
               (subscribe Stopped (RegisterMPMediaHandler_func2 (heap_next w))
                 ((players w p)\<lparr>songChangeListeners :=
                    songChangeListeners (players w p) @
                      [RegisterMPMediaHandler_func1 (heap_next w)]\<rparr>))))),
        os_commands_registered := os_accepts_registration w,
        trace := trace w @
          [Assign_mpMediaEventRecipient (heap_next w),
           C_call Register_os_remote_commands,
           Player_call p (Call_OnSongChange (RegisterMPMediaHandler_func1 (heap_next w))),
           Player_call p (Call_OnStopped (RegisterMPMediaHandler_func2 (heap_next w))),
           Player_call p (Call_OnSeek (RegisterMPMediaHandler_func3 (heap_next w))),
           Player_call p (Call_OnPlaying (RegisterMPMediaHandler_func4 (heap_next w))),
           Player_call p (Call_OnPaused (RegisterMPMediaHandler_func5 (heap_next w)))]\<rparr>)"
  by (simp add: RegisterMPMediaHandler_def new_MPMediaHandler_def register_os_remote_commands_def
      record_event_def and_then_def player_OnSongChange_def player_OnStopped_def player_OnSeek_def
      player_OnPlaying_def player_OnPaused_def player_On_def Let_def)

lemma RegisterMPMediaHandler_None:
  "RegisterMPMediaHandler None lg w =
     (Panics,
      w\<lparr>heap := (heap w)(heap_next w := \<lparr>player = None, logger = lg\<rparr>),
        heap_next := Suc (heap_next w),
        mpMediaEventRecipient := Some (heap_next w),
        os_commands_registered := os_accepts_registration w,
        trace := trace w @
          [Assign_mpMediaEventRecipient (heap_next w), C_call Register_os_remote_commands]\<rparr>)"
  by (simp add: RegisterMPMediaHandler_def new_MPMediaHandler_def register_os_remote_commands_def
      record_event_def and_then_def player_OnSongChange_def Let_def)

text \<open>
  After a registration on a player without listeners, each event of the player has the one
  listener of the new handler.
\<close>

lemma RegisterMPMediaHandler_attaches:
  assumes "songChangeListeners (players w p) = []" and "listeners (players w p) = (\<lambda>ev. [])"
  shows "songChangeListeners (players (snd (RegisterMPMediaHandler (Some p) lg w)) p) =
           [RegisterMPMediaHandler_func1 (heap_next w)]"
    and "listeners (players (snd (RegisterMPMediaHandler (Some p) lg w)) p) Stopped =
           [RegisterMPMediaHandler_func2 (heap_next w)]"
    and "listeners (players (snd (RegisterMPMediaHandler (Some p) lg w)) p) Seek =
           [RegisterMPMediaHandler_func3 (heap_next w)]"
    and "listeners (players (snd (RegisterMPMediaHandler (Some p) lg w)) p) Playing =
           [RegisterMPMediaHandler_func4 (heap_next w)]"
    and "listeners (players (snd (RegisterMPMediaHandler (Some p) lg w)) p) Paused =
           [RegisterMPMediaHandler_func5 (heap_next w)]"
    and "heap (snd (RegisterMPMediaHandler (Some p) lg w)) (heap_next w) =
           \<lparr>player = Some p, logger = lg\<rparr>"
  using assms by (simp_all add: RegisterMPMediaHandler_Some subscribe_def)

lemma registered_eval:
  "mpMediaEventRecipient (registered s) = Some 0"
  "heap (registered s) 0 = \<lparr>player = Some 7, logger = Some 3\<rparr>"
  "pstate (players (registered s) 7) = s"
  "songChangeListeners (players (registered s) 7) = [RegisterMPMediaHandler_func1 0]"
  "listeners (players (registered s) 7) Stopped = [RegisterMPMediaHandler_func2 0]"
  "listeners (players (registered s) 7) Seek = [RegisterMPMediaHandler_func3 0]"
  "listeners (players (registered s) 7) Playing = [RegisterMPMediaHandler_func4 0]"
  "listeners (players (registered s) 7) Paused = [RegisterMPMediaHandler_func5 0]"
  by (simp_all add: registered_def RegisterMPMediaHandler_Some process_start_def subscribe_def)

lemma registered_without_logger_eval:
  "mpMediaEventRecipient (registered_without_logger s) = Some 0"
  "heap (registered_without_logger s) 0 = \<lparr>player = Some 7, logger = None\<rparr>"
  "pstate (players (registered_without_logger s) 7) = s"
  "songChangeListeners (players (registered_without_logger s) 7) = [RegisterMPMediaHandler_func1 0]"
  "listeners (players (registered_without_logger s) 7) Stopped = [RegisterMPMediaHandler_func2 0]"
  "listeners (players (registered_without_logger s) 7) Seek = [RegisterMPMediaHandler_func3 0]"
  "listeners (players (registered_without_logger s) 7) Playing = [RegisterMPMediaHandler_func4 0]"
  "listeners (players (registered_without_logger s) 7) Paused = [RegisterMPMediaHandler_func5 0]"
  "trace (registered_without_logger s) =
     [Assign_mpMediaEventRecipient 0,
      C_call Register_os_remote_commands,
      Player_call 7 (Call_OnSongChange (RegisterMPMediaHandler_func1 0)),
      Player_call 7 (Call_OnStopped (RegisterMPMediaHandler_func2 0)),
      Player_call 7 (Call_OnSeek (RegisterMPMediaHandler_func3 0)),
      Player_call 7 (Call_OnPlaying (RegisterMPMediaHandler_func4 0)),
      Player_call 7 (Call_OnPaused (RegisterMPMediaHandler_func5 0))]"
  by (simp_all add: registered_without_logger_def RegisterMPMediaHandler_Some process_start_def
      subscribe_def)

lemma example_codes_distinct: "distinct (enumerators example_codes)"
  by (simp add: enumerators_def example_codes_def)

subsection \<open>Commands of the operating system\<close>

text \<open>
  C1. A recognized command code, delivered to the callback while a handler with a player is
  registered, invokes exactly one method of that player: PLAY invokes \<open>Play()\<close>, PAUSE
  \<open>Pause()\<close>, STOP \<open>Stop()\<close>, TOGGLE \<open>Pause()\<close> whatever the state of the player,
  PREVIOUS\_TRACK \<open>PreviousTrack()\<close>, NEXT\_TRACK \<open>NextTrack()\<close>, and SEEK with the
  payload \<open>v\<close> invokes \<open>SeekAbsolute(v)\<close> with the same \<open>v\<close>.
\<close>

theorem recognized_command_invokes_one_method:
  assumes "distinct (enumerators K)"
    and "mpMediaEventRecipient w = Some a"
    and "player (heap w a) = Some p"
  shows "invoked_exactly p Call_Play (Play P) w
           (snd (os_remote_command_callback K P (PLAY K) v w)) \<and>
         invoked_exactly p Call_Pause (Pause P) w
           (snd (os_remote_command_callback K P (PAUSE K) v w)) \<and>
         invoked_exactly p Call_Stop (Stop P) w
           (snd (os_remote_command_callback K P (STOP K) v w)) \<and>
         invoked_exactly p Call_Pause (Pause P) w
           (snd (os_remote_command_callback K P (TOGGLE K) v w)) \<and>
         invoked_exactly p Call_PreviousTrack (PreviousTrack P) w
           (snd (os_remote_command_callback K P (PREVIOUS_TRACK K) v w)) \<and>
         invoked_exactly p Call_NextTrack (NextTrack P) w
           (snd (os_remote_command_callback K P (NEXT_TRACK K) v w)) \<and>
         invoked_exactly p (Call_SeekAbsolute v) (SeekAbsolute P v) w
           (snd (os_remote_command_callback K P (SEEK K) v w))"
  by (simp add: dispatch [OF assms(1)] assms(2) handlers_invoke [OF assms(3)])

theorem recognized_command_invokes_one_method_witness:
  "distinct (enumerators example_codes) \<and>
   mpMediaEventRecipient (registered None) = Some 0 \<and>
   player (heap (registered None) 0) = Some 7 \<and>
   invoked_exactly 7 Call_Pause (Pause example_player) (registered None)
     (snd (os_remote_command_callback example_codes example_player 3 0 (registered None))) \<and>
   invoked_exactly 7 (Call_SeekAbsolute 0x4045400000000000)
     (SeekAbsolute example_player 0x4045400000000000) (registered None)
     (snd (os_remote_command_callback example_codes example_player 6 0x4045400000000000
        (registered None)))"
proof -
  have h: "player (heap (registered None) 0) = Some 7"
    by (simp add: registered_eval)
  show ?thesis
    using recognized_command_invokes_one_method
      [where w = "registered None" and P = example_player and v = 0,
        OF example_codes_distinct registered_eval(1) h]
      recognized_command_invokes_one_method
      [where w = "registered None" and P = example_player and v = "0x4045400000000000",
        OF example_codes_distinct registered_eval(1) h]
    by (simp add: registered_eval example_codes_def enumerators_def)
qed

text \<open>
  C4. A command code that is none of the seven enumerators makes no call on any player,
  writes the one entry \<open>unknown OS command received: <code>\<close> to the standard log, and
  returns: the world changes by this entry only.
\<close>

theorem unknown_command_logged_and_ignored:
  assumes "command \<notin> set (enumerators K)"
  shows "os_remote_command_callback K P command v w =
           (Returns (),
            w\<lparr>trace := trace w @
               [Log_Printf (''unknown OS command received: '' @ decimal (unat command))]\<rparr>)"
  using assms by (auto simp: os_remote_command_callback_def enumerators_def record_event_def)

theorem unknown_command_logged_and_ignored_witness:
  "(7 :: Command) \<notin> set (enumerators example_codes) \<and>
   os_remote_command_callback example_codes example_player 7 0 (registered None) =
     (Returns (),
      (registered None)\<lparr>trace := trace (registered None) @
         [Log_Printf ''unknown OS command received: 7'']\<rparr>)"
proof -
  have h: "(7 :: Command) \<notin> set (enumerators example_codes)"
    by (simp add: enumerators_def example_codes_def)
  show ?thesis
    using h unknown_command_logged_and_ignored
      [OF h, where P = example_player and v = 0 and w = "registered None"]
    by (simp add: decimal.simps)
qed

text \<open>
  C5, as the code has it. For a recognized command that reaches a handler with a player:
  when the handler has a logger and the method of the player returns an error, the handler
  calls \<open>PrintError\<close> on its logger with the name of the operation and the error, and
  returns; when the method returns no error, the handler logs nothing and returns, with or
  without a logger. The call on the player and, after an error, the call on the logger are
  all that the trace gains. When the handler has no logger (a nil logger, which
  \<open>RegisterMPMediaHandler\<close> accepts) and the method returns an error, the handler panics
  in \<open>mp.logger.PrintError\<close>: the error is not logged.
\<close>

theorem player_error_caught_and_logged:
  assumes "distinct (enumerators K)"
    and "mpMediaEventRecipient w = Some a"
    and "heap w a = \<lparr>player = Some p, logger = lg\<rparr>"
  shows "(lg = Some l \<longrightarrow>
           caught_and_logged p l Call_Play (Play P) ''Play'' w
             (os_remote_command_callback K P (PLAY K) v w) \<and>
           caught_and_logged p l Call_Pause (Pause P) ''Pause'' w
             (os_remote_command_callback K P (PAUSE K) v w) \<and>
           caught_and_logged p l Call_Stop (Stop P) ''Stop'' w
             (os_remote_command_callback K P (STOP K) v w) \<and>
           caught_and_logged p l Call_Pause (Pause P) ''Pause'' w
             (os_remote_command_callback K P (TOGGLE K) v w) \<and>
           caught_and_logged p l Call_PreviousTrack (PreviousTrack P) ''PreviousTrack'' w
             (os_remote_command_callback K P (PREVIOUS_TRACK K) v w) \<and>
           caught_and_logged p l Call_NextTrack (NextTrack P) ''NextTrack'' w
             (os_remote_command_callback K P (NEXT_TRACK K) v w) \<and>
           caught_and_logged p l (Call_SeekAbsolute v) (SeekAbsolute P v) ''SeekAbsolute'' w
             (os_remote_command_callback K P (SEEK K) v w)) \<and>
         (lg = None \<longrightarrow>
           panics_unlogged p Call_Play (Play P) w
             (os_remote_command_callback K P (PLAY K) v w) \<and>
           panics_unlogged p Call_Pause (Pause P) w
             (os_remote_command_callback K P (PAUSE K) v w) \<and>
           panics_unlogged p Call_Stop (Stop P) w
             (os_remote_command_callback K P (STOP K) v w) \<and>
           panics_unlogged p Call_Pause (Pause P) w
             (os_remote_command_callback K P (TOGGLE K) v w) \<and>
           panics_unlogged p Call_PreviousTrack (PreviousTrack P) w
             (os_remote_command_callback K P (PREVIOUS_TRACK K) v w) \<and>
           panics_unlogged p Call_NextTrack (NextTrack P) w
             (os_remote_command_callback K P (NEXT_TRACK K) v w) \<and>
           panics_unlogged p (Call_SeekAbsolute v) (SeekAbsolute P v) w
             (os_remote_command_callback K P (SEEK K) v w))"
proof (cases lg)
  case None
  with assms(3) have h: "heap w a = \<lparr>player = Some p, logger = None\<rparr>"
    by simp
  show ?thesis
    by (simp add: None dispatch [OF assms(1)] assms(2) handlers_unlogged [OF h])
next
  case (Some l')
  show ?thesis
  proof (cases "l' = l")
    case True
    with Some assms(3) have h: "heap w a = \<lparr>player = Some p, logger = Some l\<rparr>"
      by simp
    show ?thesis
      by (simp add: Some True dispatch [OF assms(1)] assms(2) handlers_log [OF h])
  next
    case False
    then show ?thesis
      by (simp add: Some)
  qed
qed

theorem player_error_caught_and_logged_witness:
  "distinct (enumerators example_codes) \<and>
   mpMediaEventRecipient (registered (Some ''no track'')) = Some 0 \<and>
   heap (registered (Some ''no track'')) 0 = \<lparr>player = Some 7, logger = Some 3\<rparr> \<and>
   fst (os_remote_command_callback example_codes example_player 0 0 (registered (Some ''no track'')))
     = Returns () \<and>
   trace (snd (os_remote_command_callback example_codes example_player 0 0
      (registered (Some ''no track'')))) =
     trace (registered (Some ''no track'')) @
       [Player_call 7 Call_Play, Logger_call 3 (PrintError ''Play'' ''no track'')] \<and>
   trace (snd (os_remote_command_callback example_codes example_player 0 0 (registered None))) =
     trace (registered None) @ [Player_call 7 Call_Play] \<and>
   mpMediaEventRecipient (registered_without_logger (Some ''no track'')) = Some 0 \<and>
   heap (registered_without_logger (Some ''no track'')) 0 = \<lparr>player = Some 7, logger = None\<rparr> \<and>
   fst (os_remote_command_callback example_codes example_player 2 0
      (registered_without_logger (Some ''no track''))) = Panics \<and>
   trace (snd (os_remote_command_callback example_codes example_player 2 0
      (registered_without_logger (Some ''no track'')))) =
     trace (registered_without_logger (Some ''no track'')) @ [Player_call 7 Call_Stop] \<and>
   fst (os_remote_command_callback example_codes example_player 2 0
      (registered_without_logger None)) = Returns ()"
proof -
  have codes: "PLAY example_codes = 0" "STOP example_codes = 2"
    by (simp_all add: example_codes_def)
  show ?thesis
    using player_error_caught_and_logged
        [where w = "registered (Some ''no track'')" and P = example_player and v = 0 and l = 3,
          OF example_codes_distinct registered_eval(1) registered_eval(2)]
      player_error_caught_and_logged
        [where w = "registered None" and P = example_player and v = 0 and l = 3,
          OF example_codes_distinct registered_eval(1) registered_eval(2)]
      player_error_caught_and_logged
        [where w = "registered_without_logger (Some ''no track'')" and P = example_player
          and v = 0,
          OF example_codes_distinct registered_without_logger_eval(1)
            registered_without_logger_eval(2)]
      player_error_caught_and_logged
        [where w = "registered_without_logger None" and P = example_player and v = 0,
          OF example_codes_distinct registered_without_logger_eval(1)
            registered_without_logger_eval(2)]
    by (simp add: example_codes_distinct registered_eval registered_without_logger_eval(1-8)
        codes caught_and_logged_def panics_unlogged_def example_player_def)
qed

text \<open>
  C5 as it is stated fails: after \<open>RegisterMPMediaHandler(player, nil)\<close>, the command
  PAUSE on a player whose \<open>Pause()\<close> returns an error is a recognized command with a
  failing call; the callback panics, and no log entry has been written.
\<close>

theorem player_error_not_logged_without_logger:
  "fst (os_remote_command_callback example_codes example_player 1 0
     (registered_without_logger (Some ''no track''))) = Panics \<and>
   log_entries (trace (snd (os_remote_command_callback example_codes example_player 1 0
     (registered_without_logger (Some ''no track''))))) = []"
  by (simp add: os_remote_command_callback_def example_codes_def OnCommandPause_def
      registered_without_logger_eval call_defs example_player_def log_entries_def)

text \<open>
  C9, as the code has it. The callback and the seven command handlers return, and never
  panic, for every command code, every payload, every player and whatever the player
  answers, when no handler is registered (a nil recipient), when the handler has no player,
  and when the handler has a logger. The one panic of the command path is the call of
  \<open>PrintError\<close> on the nil logger of a handler whose player returned an error.
\<close>

theorem command_entry_points_return:
  assumes "logger_present (mpMediaEventRecipient w) w"
    and "logger_present mp w"
  shows "fst (os_remote_command_callback K P command v w) = Returns () \<and>
         fst (OnCommandPlay P mp w) = Returns () \<and>
         fst (OnCommandPause P mp w) = Returns () \<and>
         fst (OnCommandStop P mp w) = Returns () \<and>
         fst (OnCommandTogglePlayPause P mp w) = Returns () \<and>
         fst (OnCommandPreviousTrack P mp w) = Returns () \<and>
         fst (OnCommandNextTrack P mp w) = Returns () \<and>
         fst (OnCommandSeek P mp v w) = Returns ()"
  by (simp add: os_remote_command_callback_def handlers_return [OF assms(1)]
      handlers_return [OF assms(2)])

theorem command_entry_points_return_witness:
  "logger_present (mpMediaEventRecipient (process_start None True)) (process_start None True) \<and>
   logger_present None (process_start None True) \<and>
   fst (os_remote_command_callback example_codes example_player 0 0 (process_start None True))
     = Returns () \<and>
   fst (os_remote_command_callback example_codes example_player 99 0 (process_start None True))
     = Returns () \<and>
   logger_present (mpMediaEventRecipient (registered (Some ''no track'')))
     (registered (Some ''no track'')) \<and>
   logger_present (Some 0) (registered (Some ''no track'')) \<and>
   fst (os_remote_command_callback example_codes example_player 0 0 (registered (Some ''no track'')))
     = Returns () \<and>
   fst (OnCommandPause example_player (Some 0) (registered (Some ''no track''))) = Returns ()"
proof -
  have h1: "logger_present (mpMediaEventRecipient (process_start None True))
      (process_start None True)"
    by (simp add: logger_present_def process_start_def)
  have h2: "logger_present None (process_start None True)"
    by (simp add: logger_present_def)
  have h3: "logger_present (mpMediaEventRecipient (registered (Some ''no track'')))
      (registered (Some ''no track''))"
    by (simp add: logger_present_def registered_eval)
  have h4: "logger_present (Some 0) (registered (Some ''no track''))"
    by (simp add: logger_present_def registered_eval)
  show ?thesis
    using h1 h2 h3 h4
      command_entry_points_return [OF h1 h2, where K = example_codes and P = example_player
        and command = 0 and v = 0]
      command_entry_points_return [OF h1 h2, where K = example_codes and P = example_player
        and command = 99 and v = 0]
      command_entry_points_return [OF h3 h4, where K = example_codes and P = example_player
        and command = 0 and v = 0]
    by simp
qed

text \<open>
  C9 as it is stated fails: after \<open>RegisterMPMediaHandler(player, nil)\<close>, the command
  PLAY on a player whose \<open>Play()\<close> returns an error panics in the callback.
\<close>

theorem command_panics_without_logger:
  "fst (os_remote_command_callback example_codes example_player 0 0
     (registered_without_logger (Some ''no track''))) = Panics"
  by (simp add: os_remote_command_callback_def example_codes_def OnCommandPlay_def
      registered_without_logger_def RegisterMPMediaHandler_Some process_start_def call_defs
      subscribe_def example_player_def)

subsection \<open>Who writes the recipient\<close>

text \<open>
  The command path and the listeners leave the recipient, the handlers on the heap and the
  record of assignments to the recipient as they are.
\<close>

lemmas listener_defs =
  and_then_def call_logger_def record_event_def player_GetTimePos_def invoke_def Let_def
  set_os_playback_state_stopped_def set_os_playback_state_playing_def
  set_os_playback_state_paused_def update_os_now_playing_info_position_def

lemma same_recipient_refl: "same_recipient w w"
  by (simp add: same_recipient_def)

lemma same_recipient_trans: "same_recipient w w' \<Longrightarrow> same_recipient w' w'' \<Longrightarrow> same_recipient w w''"
  by (simp add: same_recipient_def)

lemma handlers_same_recipient:
  "same_recipient w (snd (OnCommandPlay P mp w))"
  "same_recipient w (snd (OnCommandPause P mp w))"
  "same_recipient w (snd (OnCommandStop P mp w))"
  "same_recipient w (snd (OnCommandTogglePlayPause P mp w))"
  "same_recipient w (snd (OnCommandPreviousTrack P mp w))"
  "same_recipient w (snd (OnCommandNextTrack P mp w))"
  "same_recipient w (snd (OnCommandSeek P mp v w))"
  by (auto simp: handler_defs same_recipient_def recipient_writes_def call_defs
      split: prod.splits option.splits)

lemma callback_same_recipient:
  "same_recipient w (snd (os_remote_command_callback K P command v w))"
  by (simp add: os_remote_command_callback_def handlers_same_recipient)
    (simp add: same_recipient_def recipient_writes_def record_event_def)

lemma call_func_same_recipient: "same_recipient w (snd (call_func P f w))"
  by (cases f)
    (auto simp: func2_def func3_def func4_def func5_def listener_defs same_recipient_def
      recipient_writes_def split: prod.splits option.splits)

lemma call_track_func_same_recipient: "same_recipient w (snd (call_track_func f track w))"
  by (cases f)
    (auto simp: func1_def updateMetadata_def C_CString_def C_free_def set_os_now_playing_info_def
      and_then_def call_logger_def record_event_def same_recipient_def recipient_writes_def Let_def
      split: prod.splits option.splits)

lemma run_listeners_same_recipient: "same_recipient w (snd (run_listeners P fs w))"
proof (induction fs arbitrary: w)
  case Nil
  show ?case by (simp add: same_recipient_refl)
next
  case (Cons f fs)
  obtain r w' where step: "call_func P f w = (r, w')"
    by (cases "call_func P f w")
  have first: "same_recipient w w'"
    using call_func_same_recipient [of w P f] step by simp
  show ?case
  proof (cases r)
    case (Returns u)
    then show ?thesis
      using step same_recipient_trans [OF first Cons.IH [of w']] by simp
  next
    case Panics
    then show ?thesis
      using step first by simp
  qed
qed

lemma run_track_listeners_same_recipient:
  "same_recipient w (snd (run_track_listeners fs track w))"
proof (induction fs arbitrary: w)
  case Nil
  show ?case by (simp add: same_recipient_refl)
next
  case (Cons f fs)
  obtain r w' where step: "call_track_func f track w = (r, w')"
    by (cases "call_track_func f track w")
  have first: "same_recipient w w'"
    using call_track_func_same_recipient [of w f track] step by simp
  show ?case
  proof (cases r)
    case (Returns u)
    then show ?thesis
      using step same_recipient_trans [OF first Cons.IH [of w']] by simp
  next
    case Panics
    then show ?thesis
      using step first by simp
  qed
qed

subsection \<open>Registering the handler\<close>

text \<open>
  C10, as the code has it. For every player that is not nil and every logger (nil or not),
  \<open>RegisterMPMediaHandler\<close> returns the nil error; the recipient then points to a new
  handler, at the address that was the next free one, whose fields are the two arguments,
  and no other handler has changed; the assignment of the recipient comes before the call
  of \<open>register_os_remote_commands\<close>, which comes before the five subscriptions. For a
  nil player the recipient is assigned and the native registration made in the same way,
  and then the first subscription panics: the call does not return.
\<close>

theorem registration_sets_recipient_first:
  "fst (RegisterMPMediaHandler (Some p) lg w) = Returns None \<and>
   mpMediaEventRecipient (snd (RegisterMPMediaHandler (Some p) lg w)) = Some (heap_next w) \<and>
   heap (snd (RegisterMPMediaHandler (Some p) lg w)) =
     (heap w)(heap_next w := \<lparr>player = Some p, logger = lg\<rparr>) \<and>
   heap_next (snd (RegisterMPMediaHandler (Some p) lg w)) = Suc (heap_next w) \<and>
   trace (snd (RegisterMPMediaHandler (Some p) lg w)) =
     trace w @
       [Assign_mpMediaEventRecipient (heap_next w),
        C_call Register_os_remote_commands,
        Player_call p (Call_OnSongChange (RegisterMPMediaHandler_func1 (heap_next w))),
        Player_call p (Call_OnStopped (RegisterMPMediaHandler_func2 (heap_next w))),
        Player_call p (Call_OnSeek (RegisterMPMediaHandler_func3 (heap_next w))),
        Player_call p (Call_OnPlaying (RegisterMPMediaHandler_func4 (heap_next w))),
        Player_call p (Call_OnPaused (RegisterMPMediaHandler_func5 (heap_next w)))] \<and>
   fst (RegisterMPMediaHandler None lg w) = Panics \<and>
   mpMediaEventRecipient (snd (RegisterMPMediaHandler None lg w)) = Some (heap_next w) \<and>
   heap (snd (RegisterMPMediaHandler None lg w)) =
     (heap w)(heap_next w := \<lparr>player = None, logger = lg\<rparr>) \<and>
   trace (snd (RegisterMPMediaHandler None lg w)) =
     trace w @ [Assign_mpMediaEventRecipient (heap_next w), C_call Register_os_remote_commands]"
  by (simp add: RegisterMPMediaHandler_Some RegisterMPMediaHandler_None)

text \<open>
  C10 as it is stated fails for a nil player: \<open>RegisterMPMediaHandler(nil, logger 3)\<close>
  in the process before any registration panics and returns no error value.
\<close>

theorem registration_panics_on_nil_player:
  "fst (RegisterMPMediaHandler None (Some 3) (process_start None True)) = Panics"
  by (simp add: RegisterMPMediaHandler_None)

text \<open>
  C6, as the code has it. \<open>RegisterMPMediaHandler\<close> never returns an error: for every
  player that is not nil it returns the nil error, also when the native side refuses the
  registration. The C function returns nothing, so a refusal leaves the commands
  unregistered and is not seen by the caller.
\<close>

theorem registration_never_returns_error:
  "fst (RegisterMPMediaHandler pl lg w) \<noteq> Returns (Some e) \<and>
   fst (RegisterMPMediaHandler (Some p) lg (w\<lparr>os_accepts_registration := False\<rparr>)) = Returns None \<and>
   os_commands_registered (snd (RegisterMPMediaHandler pl lg w)) = os_accepts_registration w"
  by (cases pl) (simp_all add: RegisterMPMediaHandler_Some RegisterMPMediaHandler_None)

text \<open>
  C6 as it is stated fails: with a native side that refuses, the registration returns the
  nil error, and the commands are not registered.
\<close>

theorem refused_registration_returns_nil:
  "\<not> os_accepts_registration (process_start None False) \<and>
   fst (RegisterMPMediaHandler (Some 7) (Some 3) (process_start None False)) = Returns None \<and>
   \<not> os_commands_registered (snd (RegisterMPMediaHandler (Some 7) (Some 3) (process_start None False)))"
  by (simp add: RegisterMPMediaHandler_Some process_start_def)

text \<open>
  C7. The recipient is one pointer variable, so it names at most one handler. Every call of
  \<open>RegisterMPMediaHandler\<close>, with any arguments, assigns it exactly once, to the new
  handler. A second registration, like the first with a player that is not nil, returns the
  nil error, logs nothing, and
  leaves the recipient at the second handler; the first handler stays on the heap,
  unchanged, and is no longer the recipient. Nothing else assigns the recipient: a command
  and an event of a player, whatever its listeners, leave it as it is.
\<close>

theorem second_registration_replaces_recipient:
  "recipient_writes (trace (snd (RegisterMPMediaHandler pl lg w))) =
     recipient_writes (trace w) @ [heap_next w] \<and>
   mpMediaEventRecipient (snd (RegisterMPMediaHandler (Some p1) l1 w)) = Some (heap_next w) \<and>
   fst (RegisterMPMediaHandler (Some p2) l2 (snd (RegisterMPMediaHandler (Some p1) l1 w))) =
     Returns None \<and>
   mpMediaEventRecipient
     (snd (RegisterMPMediaHandler (Some p2) l2 (snd (RegisterMPMediaHandler (Some p1) l1 w)))) =
     Some (Suc (heap_next w)) \<and>
   heap (snd (RegisterMPMediaHandler (Some p2) l2 (snd (RegisterMPMediaHandler (Some p1) l1 w))))
     (Suc (heap_next w)) = \<lparr>player = Some p2, logger = l2\<rparr> \<and>
   heap (snd (RegisterMPMediaHandler (Some p2) l2 (snd (RegisterMPMediaHandler (Some p1) l1 w))))
     (heap_next w) = \<lparr>player = Some p1, logger = l1\<rparr> \<and>
   log_entries
     (trace (snd (RegisterMPMediaHandler (Some p2) l2 (snd (RegisterMPMediaHandler (Some p1) l1 w))))) =
     log_entries (trace w) \<and>
   recipient_writes
     (trace (snd (RegisterMPMediaHandler (Some p2) l2 (snd (RegisterMPMediaHandler (Some p1) l1 w))))) =
     recipient_writes (trace w) @ [heap_next w, Suc (heap_next w)] \<and>
   same_recipient w (snd (os_remote_command_callback K P command v w)) \<and>
   same_recipient w (snd (emit P p ev w)) \<and>
   same_recipient w (snd (emit_SongChange p track w))"
  by (cases pl)
    (simp_all add: RegisterMPMediaHandler_Some RegisterMPMediaHandler_None recipient_writes_def
      log_entries_def callback_same_recipient emit_def emit_SongChange_def
      run_listeners_same_recipient run_track_listeners_same_recipient)

subsection \<open>The conversion of the duration\<close>


















subsection \<open>Events of the player\<close>


text \<open>\<open>updateMetadata\<close> frees what it allocates: no C string is left behind.\<close>

lemma updateMetadata_releases:
  assumes "c_heap w (c_next w) = None" "c_heap w (Suc (c_next w)) = None"
    "c_heap w (Suc (Suc (c_next w))) = None"
  shows "c_heap (snd (updateMetadata mp track w)) = c_heap w"
  using assms
  by (auto simp add: updateMetadata_def C_CString_def C_free_def set_os_now_playing_info_def
      record_event_def Let_def fun_eq_iff split: option.splits)










end
